theory Spec2Isabelle
  imports Main
begin

section \<open>Data model of orchestrator.py\<close>

text \<open>
  Python values that travel through the orchestrator: the arguments that
  \<^verbatim>\<open>json.loads\<close> yields and the dictionaries the servers return. A \<^verbatim>\<open>dict\<close> is an
  association list, looked up from the front. \<open>PObject\<close> stands for any other Python
  object (named by its type), which \<^verbatim>\<open>json.dumps\<close> may refuse to encode.
\<close>

datatype pyval =
    PNone
  | PBool bool
  | PInt int
  | PStr string
  | PList "pyval list"
  | PDict "(string \<times> pyval) list"
  | PObject string

text \<open>
  Exceptions are values. The first four constructors are subclasses of Python's
  \<^verbatim>\<open>Exception\<close>; \<open>Raised\<close> is any other such exception, carried by its message. The
  last three derive from \<^verbatim>\<open>BaseException\<close> only: \<^verbatim>\<open>KeyboardInterrupt\<close>,
  \<^verbatim>\<open>SystemExit\<close> and \<^verbatim>\<open>asyncio.CancelledError\<close>.
\<close>

datatype exc =
    KeyError string
  | TypeError string
  | IndexError string
  | Raised string
  | KeyboardInterrupt
  | SystemExit string
  | CancelledError

text \<open>\<^verbatim>\<open>isinstance(e, Exception)\<close>: what a handler \<^verbatim>\<open>except Exception\<close> catches.\<close>

fun is_exception :: "exc \<Rightarrow> bool" where
  "is_exception (KeyError k) = True"
| "is_exception (TypeError m) = True"
| "is_exception (IndexError m) = True"
| "is_exception (Raised m) = True"
| "is_exception KeyboardInterrupt = False"
| "is_exception (SystemExit m) = False"
| "is_exception CancelledError = False"

text \<open>
  \<^verbatim>\<open>repr\<close> of a string, a character being the code point of its number: double quotes
  when the string holds an apostrophe and no double quote, apostrophes otherwise; the
  backslash and the chosen quote are escaped, as are newline, carriage return and tab,
  and the other characters that are not printable are written \<^verbatim>\<open>\xNN\<close>.
\<close>

definition hex_digit :: "nat \<Rightarrow> char" where
  "hex_digit n = ''0123456789abcdef'' ! (n mod 16)"

definition repr_char :: "char \<Rightarrow> char \<Rightarrow> string" where
  "repr_char quote c =
    (if c = CHR 0x5C then [CHR 0x5C, CHR 0x5C]
     else if c = quote then [CHR 0x5C, quote]
     else if c = CHR 0x0A then [CHR 0x5C, CHR ''n'']
     else if c = CHR 0x0D then [CHR 0x5C, CHR ''r'']
     else if c = CHR 0x09 then [CHR 0x5C, CHR ''t'']
     else if (of_char c :: nat) < 32 \<or> (of_char c :: nat) = 127 \<or>
             (128 \<le> (of_char c :: nat) \<and> (of_char c :: nat) \<le> 160) \<or>
             (of_char c :: nat) = 173
       then [CHR 0x5C, CHR ''x'', hex_digit (of_char c div 16), hex_digit (of_char c)]
     else [c])"

definition py_repr :: "string \<Rightarrow> string" where
  "py_repr s =
    (let quote = (if CHR 0x27 \<in> set s \<and> CHR 0x22 \<notin> set s then CHR 0x22 else CHR 0x27)
     in [quote] @ concat (map (repr_char quote) s) @ [quote])"

text \<open>
  \<^verbatim>\<open>str(e)\<close>: a \<^verbatim>\<open>KeyError\<close> prints the repr of its key, an exception raised without
  arguments prints as the empty string.
\<close>

fun str_exc :: "exc \<Rightarrow> string" where
  "str_exc (KeyError k) = py_repr k"
| "str_exc (TypeError m) = m"
| "str_exc (IndexError m) = m"
| "str_exc (Raised m) = m"
| "str_exc KeyboardInterrupt = []"
| "str_exc (SystemExit m) = m"
| "str_exc CancelledError = []"

text \<open>
  \<^verbatim>\<open>arguments[key]\<close> with a string key: a dictionary without the key raises
  \<^verbatim>\<open>KeyError\<close>, a value that is no dictionary raises \<^verbatim>\<open>TypeError\<close>.
\<close>

fun subscript :: "pyval \<Rightarrow> string \<Rightarrow> exc + pyval" where
  "subscript (PDict kvs) k =
     (case map_of kvs k of None \<Rightarrow> Inl (KeyError k) | Some v \<Rightarrow> Inr v)"
| "subscript (PList xs) k = Inl (TypeError ''list indices must be integers or slices, not str'')"
| "subscript (PStr s) k = Inl (TypeError (''string indices must be integers, not 'str'' @ [CHR 0x27]))"
| "subscript PNone k = Inl (TypeError '''NoneType' object is not subscriptable'')"
| "subscript (PBool b) k = Inl (TypeError '''bool' object is not subscriptable'')"
| "subscript (PInt i) k = Inl (TypeError '''int' object is not subscriptable'')"
| "subscript (PObject t) k = Inl (TypeError ([CHR 0x27] @ t @ [CHR 0x27] @ '' object is not subscriptable''))"

section \<open>The tool registry\<close>

text \<open>
  One entry of the list \<^verbatim>\<open>_build_tool_registry\<close> returns: the \<^verbatim>\<open>"type"\<close> of the entry,
  and of its \<^verbatim>\<open>"function"\<close> the name, the description, and the parameters object
  (its type, its properties as name, type and description, and the required names).
\<close>

record tool =
  tool_type :: string
  fn_name :: string
  fn_description :: string
  params_type :: string
  properties :: "(string \<times> string \<times> string) list"
  required :: "string list"

definition function_tool ::
  "string \<Rightarrow> string \<Rightarrow> (string \<times> string \<times> string) list \<Rightarrow> string list \<Rightarrow> tool" where
  "function_tool n d ps rq =
     \<lparr>tool_type = ''function'', fn_name = n, fn_description = d,
      params_type = ''object'', properties = ps, required = rq\<rparr>"

definition build_tool_registry :: "tool list" where
  "build_tool_registry =
    [function_tool ''get_employee''
       ''Get detailed information about an employee by ID''
       [(''employee_id'', ''integer'', ''The employee ID number'')]
       [''employee_id''],
     function_tool ''search_employees''
       ''Search for employees by name (partial match)''
       [(''name'', ''string'', ''Name or partial name to search for'')]
       [''name''],
     function_tool ''get_employees_by_department''
       ''Get all employees in a specific department''
       [(''department'', ''string'',
         ''Department name (e.g., 'Engineering', 'HR', 'Sales')'')]
       [''department''],
     function_tool ''get_all_employees''
       ''Get a list of all employees in the database''
       [] [],
     function_tool ''list_announcements''
       ''List all available announcement files''
       [] [],
     function_tool ''read_announcement''
       ''Read the full content of a specific announcement file''
       [(''filename'', ''string'',
         ''Name of the announcement file (e.g., 'holiday_2024.txt')'')]
       [''filename''],
     function_tool ''search_announcements''
       ''Search announcements by keyword''
       [(''keyword'', ''string'', ''Keyword to search for in announcements'')]
       [''keyword''],
     function_tool ''search_policies''
       ''Search policy documents. Use this for questions about leave policy, salary policy, or other HR policies.''
       [(''query'', ''string'', ''Natural language question about policies'')]
       [''query''],
     function_tool ''list_policies''
       ''List all available policy documents''
       [] []]"

section \<open>The collaborators\<close>

text \<open>
  The three MCP servers are imported from \<^verbatim>\<open>mcp_servers\<close>, the Groq client and the json
  module from libraries: none of them is code of \<^verbatim>\<open>orchestrator.py\<close>, so each operation
  is a parameter. An operation returns a value (\<open>Inr\<close>) or raises (\<open>Inl\<close>).
\<close>

record servers =
  db_get_employee :: "pyval \<Rightarrow> exc + pyval"
  db_search_employees :: "pyval \<Rightarrow> exc + pyval"
  db_get_employees_by_department :: "pyval \<Rightarrow> exc + pyval"
  db_get_all_employees :: "exc + pyval"
  fs_list_announcements :: "exc + pyval"
  fs_read_announcement :: "pyval \<Rightarrow> exc + pyval"
  fs_search_announcements :: "pyval \<Rightarrow> exc + pyval"
  rag_search_policies :: "pyval \<Rightarrow> exc + pyval"
  rag_list_policies :: "exc + pyval"

section \<open>\<^verbatim>\<open>_execute_tool\<close>\<close>

text \<open>Evaluating an argument expression, then calling the server with its value.\<close>

definition call_with :: "exc + pyval \<Rightarrow> (pyval \<Rightarrow> exc + pyval) \<Rightarrow> exc + pyval" where
  "call_with arg f = (case arg of Inl e \<Rightarrow> Inl e | Inr v \<Rightarrow> f v)"

definition unknown_tool :: "string \<Rightarrow> pyval" where
  "unknown_tool tool_name = PDict [(''error'', PStr (''Unknown tool: '' @ tool_name))]"

definition execution_failed :: "exc \<Rightarrow> pyval" where
  "execution_failed e = PDict [(''error'', PStr (''Tool execution failed: '' @ str_exc e))]"

text \<open>
  The body of the \<^verbatim>\<open>try\<close> block, the \<^verbatim>\<open>if\<close>/\<^verbatim>\<open>elif\<close> chain in the order of the source:
  what it returns, or the exception it raises.
\<close>

definition execute_tool_try :: "servers \<Rightarrow> string \<Rightarrow> pyval \<Rightarrow> exc + pyval" where
  "execute_tool_try sv tool_name arguments =
    (if tool_name = ''get_employee'' then
       call_with (subscript arguments ''employee_id'') (db_get_employee sv)
     else if tool_name = ''search_employees'' then
       call_with (subscript arguments ''name'') (db_search_employees sv)
     else if tool_name = ''get_employees_by_department'' then
       call_with (subscript arguments ''department'') (db_get_employees_by_department sv)
     else if tool_name = ''get_all_employees'' then db_get_all_employees sv
     else if tool_name = ''list_announcements'' then fs_list_announcements sv
     else if tool_name = ''read_announcement'' then
       call_with (subscript arguments ''filename'') (fs_read_announcement sv)
     else if tool_name = ''search_announcements'' then
       call_with (subscript arguments ''keyword'') (fs_search_announcements sv)
     else if tool_name = ''search_policies'' then
       call_with (subscript arguments ''query'') (rag_search_policies sv)
     else if tool_name = ''list_policies'' then rag_list_policies sv
     else Inr (unknown_tool tool_name))"

text \<open>
  \<^verbatim>\<open>_execute_tool\<close>: the \<^verbatim>\<open>try\<close> block under its handler
  \<^verbatim>\<open>except Exception as e\<close>. The handler catches the exceptions that derive from
  \<^verbatim>\<open>Exception\<close>; any other leaves the function (\<open>Inl\<close>).
\<close>

definition execute_tool :: "servers \<Rightarrow> string \<Rightarrow> pyval \<Rightarrow> exc + pyval" where
  "execute_tool sv tool_name arguments =
    (case execute_tool_try sv tool_name arguments of
       Inl e \<Rightarrow> (if is_exception e then Inr (execution_failed e) else Inl e)
     | Inr r \<Rightarrow> Inr r)"

section \<open>Turns, requests and the orchestrator's state\<close>

text \<open>
  A requested call as the model's response carries it: \<^verbatim>\<open>tc.id\<close>,
  \<^verbatim>\<open>tc.function.name\<close> and \<^verbatim>\<open>tc.function.arguments\<close> (the serialized arguments).
\<close>

record tool_call =
  call_id :: string
  function_name :: string
  function_arguments :: string

text \<open>The dictionary stored for it under \<^verbatim>\<open>"tool_calls"\<close> of the assistant turn.\<close>

record call_entry =
  entry_id :: string
  entry_type :: string
  entry_name :: string
  entry_arguments :: string

text \<open>
  An entry of \<^verbatim>\<open>conversation_history\<close> (and the system message): a dictionary with the
  keys \<^verbatim>\<open>role\<close> and \<^verbatim>\<open>content\<close>, and on some turns \<^verbatim>\<open>tool_calls\<close> or
  \<^verbatim>\<open>tool_call_id\<close>. The content \<open>None\<close> is Python's \<^verbatim>\<open>None\<close>; for the two optional
  keys \<open>None\<close> says that the key is absent.
\<close>

record message =
  role :: string
  content :: "string option"
  tool_calls :: "call_entry list option"
  tool_call_id :: "string option"

text \<open>\<^verbatim>\<open>response.choices[i].message\<close>: nullable text and nullable list of calls.\<close>

record chat_message =
  resp_content :: "string option"
  resp_tool_calls :: "tool_call list option"

text \<open>
  The keyword arguments of \<^verbatim>\<open>chat.completions.create\<close>; \<open>None\<close> for a keyword that is
  not passed.
\<close>

record request =
  model :: string
  messages :: "message list"
  req_tools :: "tool list option"
  tool_choice :: "string option"
  max_tokens :: nat

text \<open>
  The library calls: the completion request (answering with the list \<^verbatim>\<open>choices\<close> of
  messages, or raising), \<^verbatim>\<open>json.loads\<close> and \<^verbatim>\<open>json.dumps\<close>.
\<close>

record library =
  groq_create :: "request \<Rightarrow> exc + chat_message list"
  json_loads :: "string \<Rightarrow> exc + pyval"
  json_dumps :: "pyval \<Rightarrow> exc + string"

text \<open>
  The mutable fields of the orchestrator object. \<open>requests\<close> is not a field of the
  source: it records, oldest first, the requests handed to the Groq client, which makes
  the network effect of \<^verbatim>\<open>process_query\<close> visible.
\<close>

record orchestrator =
  tools :: "tool list"
  conversation_history :: "message list"
  requests :: "request list"

definition init :: orchestrator where
  "init = \<lparr>tools = build_tool_registry, conversation_history = [], requests = []\<rparr>"

definition system_prompt :: string where
  "system_prompt =
    ''You are a helpful and confident HR assistant with direct access to:'' @ [CHR 0x0A] @
    [CHR 0x0A] @
    ''1. **Employee Database**: Employee information, departments, contact details'' @ [CHR 0x0A] @
    ''2. **Announcements**: Company announcements, holidays, team events, policy updates'' @ [CHR 0x0A] @
    ''3. **Policy Documents**: HR policies (leave policy, salary policy, etc.)'' @ [CHR 0x0A] @
    [CHR 0x0A] @
    ''Your behavior:'' @ [CHR 0x0A] @
    ''- Provide direct, accurate answers using the tools available'' @ [CHR 0x0A] @
    ''- Be concise and professional'' @ [CHR 0x0A] @
    ''- Format lists clearly with line breaks between items for better readability'' @ [CHR 0x0A] @
    [CHR 0x0A] @
    ''Be confident and helpful.''"

definition system_message :: message where
  "system_message =
     \<lparr>role = ''system'', content = Some system_prompt, tool_calls = None, tool_call_id = None\<rparr>"

definition user_turn :: "string \<Rightarrow> message" where
  "user_turn user_query =
     \<lparr>role = ''user'', content = Some user_query, tool_calls = None, tool_call_id = None\<rparr>"

definition assistant_turn :: "string option \<Rightarrow> message" where
  "assistant_turn c =
     \<lparr>role = ''assistant'', content = c, tool_calls = None, tool_call_id = None\<rparr>"

definition entry_of :: "tool_call \<Rightarrow> call_entry" where
  "entry_of tc =
     \<lparr>entry_id = call_id tc, entry_type = ''function'',
      entry_name = function_name tc, entry_arguments = function_arguments tc\<rparr>"

text \<open>\<^verbatim>\<open>response_message.content or ""\<close>: \<^verbatim>\<open>None\<close> and the empty string are falsy.\<close>

definition content_or_empty :: "string option \<Rightarrow> string" where
  "content_or_empty c = (case c of None \<Rightarrow> [] | Some s \<Rightarrow> (if s = [] then [] else s))"

definition assistant_call_turn :: "string option \<Rightarrow> tool_call list \<Rightarrow> message" where
  "assistant_call_turn c tcs =
     \<lparr>role = ''assistant'', content = Some (content_or_empty c),
      tool_calls = Some (map entry_of tcs), tool_call_id = None\<rparr>"

definition tool_turn :: "string \<Rightarrow> string \<Rightarrow> message" where
  "tool_turn cid text =
     \<lparr>role = ''tool'', content = Some text, tool_calls = None, tool_call_id = Some cid\<rparr>"

definition append_turn :: "message \<Rightarrow> orchestrator \<Rightarrow> orchestrator" where
  "append_turn m self = self\<lparr>conversation_history := conversation_history self @ [m]\<rparr>"

definition planning_request :: "orchestrator \<Rightarrow> request" where
  "planning_request self =
     \<lparr>model = ''llama-3.3-70b-versatile'',
      messages = system_message # conversation_history self,
      req_tools = Some (tools self), tool_choice = Some ''auto'', max_tokens = 4096\<rparr>"

definition final_request :: "orchestrator \<Rightarrow> request" where
  "final_request self =
     \<lparr>model = ''llama-3.3-70b-versatile'',
      messages = system_message # conversation_history self,
      req_tools = None, tool_choice = None, max_tokens = 4096\<rparr>"

text \<open>
  A call of \<^verbatim>\<open>self.groq_client.chat.completions.create(...)\<close> followed by
  \<^verbatim>\<open>.choices[0].message\<close>: the request is recorded, then the client answers or raises;
  an empty list of choices raises \<^verbatim>\<open>IndexError\<close>.
\<close>

definition first_choice :: "chat_message list \<Rightarrow> exc + chat_message" where
  "first_choice choices =
     (case choices of [] \<Rightarrow> Inl (IndexError ''list index out of range'') | m # _ \<Rightarrow> Inr m)"

definition create_message ::
  "library \<Rightarrow> request \<Rightarrow> orchestrator \<Rightarrow> (exc + chat_message) \<times> orchestrator" where
  "create_message lib rq self =
     ((case groq_create lib rq of Inl e \<Rightarrow> Inl e | Inr choices \<Rightarrow> first_choice choices),
      self\<lparr>requests := requests self @ [rq]\<rparr>)"

section \<open>\<^verbatim>\<open>process_query\<close>\<close>

text \<open>
  The loop \<^verbatim>\<open>for tool_call in tool_calls\<close>: parse the arguments, run the tool, append
  the tool turn. The first component is the exception that left the loop, if any. The
  \<^verbatim>\<open>print\<close> calls under \<^verbatim>\<open>verbose\<close> are left out.
\<close>

fun execute_calls ::
  "library \<Rightarrow> servers \<Rightarrow> tool_call list \<Rightarrow> orchestrator \<Rightarrow> exc option \<times> orchestrator" where
  "execute_calls lib sv [] self = (None, self)"
| "execute_calls lib sv (tc # tcs) self =
     (case json_loads lib (function_arguments tc) of
        Inl e \<Rightarrow> (Some e, self)
      | Inr function_args \<Rightarrow>
          (case execute_tool sv (function_name tc) function_args of
             Inl e \<Rightarrow> (Some e, self)
           | Inr tool_result \<Rightarrow>
               (case json_dumps lib tool_result of
                  Inl e \<Rightarrow> (Some e, self)
                | Inr text \<Rightarrow>
                    execute_calls lib sv tcs (append_turn (tool_turn (call_id tc) text) self))))"

text \<open>\<^verbatim>\<open>not tool_calls\<close>: true of \<^verbatim>\<open>None\<close> and of the empty list.\<close>

definition no_calls :: "tool_call list option \<Rightarrow> bool" where
  "no_calls tcs = (case tcs of None \<Rightarrow> True | Some xs \<Rightarrow> xs = [])"

text \<open>The list that \<^verbatim>\<open>for tool_call in tool_calls\<close> walks once \<^verbatim>\<open>tool_calls\<close> is truthy.\<close>

definition calls_of :: "tool_call list option \<Rightarrow> tool_call list" where
  "calls_of tcs = (case tcs of None \<Rightarrow> [] | Some xs \<Rightarrow> xs)"

text \<open>The second model call and the final assistant turn (lines 314 to 332).\<close>

definition finalize ::
  "library \<Rightarrow> orchestrator \<Rightarrow> (exc + string option) \<times> orchestrator" where
  "finalize lib self =
     (case create_message lib (final_request self) self of
        (Inl e, self') \<Rightarrow> (Inl e, self')
      | (Inr final, self') \<Rightarrow>
          (Inr (resp_content final), append_turn (assistant_turn (resp_content final)) self'))"

text \<open>
  \<^verbatim>\<open>process_query\<close>: the value returned (\<open>Inr\<close>: the text, which may be \<^verbatim>\<open>None\<close>) or the
  exception raised (\<open>Inl\<close>), and the orchestrator afterwards.
\<close>

definition process_query ::
  "library \<Rightarrow> servers \<Rightarrow> string \<Rightarrow> orchestrator \<Rightarrow> (exc + string option) \<times> orchestrator" where
  "process_query lib sv user_query self =
     (let self1 = append_turn (user_turn user_query) self in
      case create_message lib (planning_request self1) self1 of
        (Inl e, self2) \<Rightarrow> (Inl e, self2)
      | (Inr response_message, self2) \<Rightarrow>
          if no_calls (resp_tool_calls response_message) then
            (Inr (resp_content response_message),
             append_turn (assistant_turn (resp_content response_message)) self2)
          else
            (let tcs = calls_of (resp_tool_calls response_message);
                 self3 = append_turn (assistant_call_turn (resp_content response_message) tcs) self2
             in case execute_calls lib sv tcs self3 of
                  (Some e, self4) \<Rightarrow> (Inl e, self4)
                | (None, self4) \<Rightarrow> finalize lib self4))"

definition reset_conversation :: "orchestrator \<Rightarrow> orchestrator" where
  "reset_conversation self = self\<lparr>conversation_history := []\<rparr>"

section \<open>Notions used to state the properties\<close>

text \<open>
  The message the planning call yields for a query: the first model call of
  \<^verbatim>\<open>process_query\<close>, made after the user turn is appended.
\<close>

definition planning_answer :: "library \<Rightarrow> string \<Rightarrow> orchestrator \<Rightarrow> exc + chat_message" where
  "planning_answer lib user_query self =
     fst (create_message lib (planning_request (append_turn (user_turn user_query) self))
            (append_turn (user_turn user_query) self))"

text \<open>
  The orchestrator when the loop over the requested calls starts: the planning request is
  recorded, the user turn and the assistant turn with the requested calls are appended.
\<close>

definition after_request :: "string \<Rightarrow> chat_message \<Rightarrow> orchestrator \<Rightarrow> orchestrator" where
  "after_request user_query m self =
     self\<lparr>requests := requests self @ [planning_request (append_turn (user_turn user_query) self)],
          conversation_history :=
            conversation_history self @
              [user_turn user_query,
               assistant_call_turn (resp_content m) (calls_of (resp_tool_calls m))]\<rparr>"

text \<open>The tool turns of calls \<open>tcs\<close> with the serialized results \<open>texts\<close>, pairwise.\<close>

definition tool_turns :: "tool_call list \<Rightarrow> string list \<Rightarrow> message list" where
  "tool_turns tcs texts = map (\<lambda>(tc, text). tool_turn (call_id tc) text) (zip tcs texts)"

text \<open>
  For a turn whose planning message \<open>m\<close> requests calls: the exception that left the loop
  over the calls (if any), the orchestrator when the loop is left, and the message the
  finalization call yields from there.
\<close>

definition calls_outcome ::
  "library \<Rightarrow> servers \<Rightarrow> string \<Rightarrow> chat_message \<Rightarrow> orchestrator \<Rightarrow> exc option" where
  "calls_outcome lib sv user_query m self =
     fst (execute_calls lib sv (calls_of (resp_tool_calls m)) (after_request user_query m self))"

definition before_final ::
  "library \<Rightarrow> servers \<Rightarrow> string \<Rightarrow> chat_message \<Rightarrow> orchestrator \<Rightarrow> orchestrator" where
  "before_final lib sv user_query m self =
     snd (execute_calls lib sv (calls_of (resp_tool_calls m)) (after_request user_query m self))"

definition final_answer ::
  "library \<Rightarrow> servers \<Rightarrow> string \<Rightarrow> chat_message \<Rightarrow> orchestrator \<Rightarrow> exc + chat_message" where
  "final_answer lib sv user_query m self =
     fst (create_message lib (final_request (before_final lib sv user_query m self))
            (before_final lib sv user_query m self))"

section \<open>A concrete session\<close>

text \<open>
  Instances of the collaborators, for evaluating the orchestrator: servers over one
  employee, a parser and an encoder given on the few values used, and a model that
  answers \<open>plan\<close> to a request with tools and \<open>final\<close> to a request without.
\<close>

definition demo_servers :: servers where
  "demo_servers =
    \<lparr>db_get_employee = (\<lambda>v. if v = PInt 1 then Inr (PDict [(''name'', PStr ''Ada'')])
                              else Inl (Raised ''Employee not found'')),
     db_search_employees = (\<lambda>v. Inr (PList [])),
     db_get_employees_by_department = (\<lambda>v. Inr (PList [PDict [(''name'', PStr ''Ada'')]])),
     db_get_all_employees = Inr (PList [PDict [(''name'', PStr ''Ada'')]]),
     fs_list_announcements = Inr (PList [PStr ''holiday_2024.txt'']),
     fs_read_announcement = (\<lambda>v. Inl (Raised ''File not found'')),
     fs_search_announcements = (\<lambda>v. Inr (PList [])),
     rag_search_policies = (\<lambda>v. Inr (PDict [(''answer'', PStr ''20 days'')])),
     rag_list_policies = Inr (PList [PStr ''leave_policy.pdf''])\<rparr>"




definition dept_args :: string where
  "dept_args = ''{'' @ [CHR 0x22] @ ''department'' @ [CHR 0x22] @ '': '' @
     [CHR 0x22] @ ''Engineering'' @ [CHR 0x22] @ ''}''"

definition demo_loads :: "string \<Rightarrow> exc + pyval" where
  "demo_loads s =
    (if s = ''{}'' then Inr (PDict [])
     else if s = dept_args then Inr (PDict [(''department'', PStr ''Engineering'')])
     else if s = ''[]'' then Inr (PList [])
     else Inl (Raised ''Expecting property name enclosed in double quotes: line 1 column 2 (char 1)''))"

fun demo_dumps :: "pyval \<Rightarrow> exc + string" where
  "demo_dumps (PObject t) = Inl (TypeError (''Object of type '' @ t @ '' is not JSON serializable''))"
| "demo_dumps (PDict [(k, PStr v)]) =
     Inr (''{'' @ [CHR 0x22] @ k @ [CHR 0x22] @ '': '' @ [CHR 0x22] @ v @ [CHR 0x22] @ ''}'')"
| "demo_dumps v = Inr ''[...]''"

definition demo_library :: "(exc + chat_message list) \<Rightarrow> (exc + chat_message list) \<Rightarrow> library" where
  "demo_library plan final =
    \<lparr>groq_create = (\<lambda>rq. if req_tools rq = None then final else plan),
     json_loads = demo_loads, json_dumps = demo_dumps\<rparr>"

definition says :: "string option \<Rightarrow> tool_call list option \<Rightarrow> exc + chat_message list" where
  "says c tcs = Inr [\<lparr>resp_content = c, resp_tool_calls = tcs\<rparr>]"

definition dept_call :: tool_call where
  "dept_call = \<lparr>call_id = ''call_1'', function_name = ''get_employees_by_department'',
                 function_arguments = dept_args\<rparr>"

definition ghost_call :: tool_call where
  "ghost_call = \<lparr>call_id = ''call_2'', function_name = ''get_salary'',
                  function_arguments = ''{}''\<rparr>"


definition bad_call :: tool_call where
  "bad_call = \<lparr>call_id = ''call_3'', function_name = ''get_employee'',
                function_arguments = ''{employee_id: 1}''\<rparr>"

section \<open>The registry and the dispatcher\<close>

lemma registry_names:
  "map fn_name build_tool_registry =
    [''get_employee'', ''search_employees'', ''get_employees_by_department'',
     ''get_all_employees'', ''list_announcements'', ''read_announcement'',
     ''search_announcements'', ''search_policies'', ''list_policies'']"
  by (simp add: build_tool_registry_def function_tool_def)

lemma execute_tool_try_unknown:
  "n \<notin> set (map fn_name build_tool_registry) \<Longrightarrow>
   execute_tool_try sv n a = Inr (unknown_tool n)"
  unfolding registry_names by (simp add: execute_tool_try_def)





text \<open>
  C5. A tool name that is none of the nine names of the registry is answered with
  exactly \<^verbatim>\<open>{"error": "Unknown tool: <name>"}\<close>, as a returned value.
\<close>

theorem execute_tool_unknown:
  "tool_name \<notin> set (map fn_name build_tool_registry) \<Longrightarrow>
   execute_tool sv tool_name arguments =
     Inr (PDict [(''error'', PStr (''Unknown tool: '' @ tool_name))])"
  using execute_tool_try_unknown[of tool_name sv arguments]
  by (simp add: execute_tool_def unknown_tool_def)

theorem execute_tool_unknown_witness:
  "''get_salary'' \<notin> set (map fn_name build_tool_registry) \<and>
   execute_tool demo_servers ''get_salary'' (PDict []) =
     Inr (PDict [(''error'', PStr ''Unknown tool: get_salary'')])"
proof -
  have h: "''get_salary'' \<notin> set (map fn_name build_tool_registry)"
    by (simp add: registry_names)
  from h execute_tool_unknown[OF h, of demo_servers "PDict []"] show ?thesis by simp
qed


text \<open>
  C8. After \<^verbatim>\<open>reset_conversation\<close> the conversation history is empty, whatever it held
  before.
\<close>

theorem reset_conversation_empty:
  "conversation_history (reset_conversation self) = []"
  by (simp add: reset_conversation_def)

section \<open>The shape of a turn\<close>

lemma no_calls_iff: "no_calls tcs \<longleftrightarrow> calls_of tcs = []"
  by (simp add: no_calls_def calls_of_def split: option.split)

lemma tool_turns_length:
  "length texts \<le> length tcs \<Longrightarrow> length (tool_turns tcs texts) = length texts"
  by (simp add: tool_turns_def)

lemma tool_turns_ids:
  "length texts = length tcs \<Longrightarrow>
   map tool_call_id (tool_turns tcs texts) = map (\<lambda>tc. Some (call_id tc)) tcs"
  by (induction texts tcs rule: list_induct2) (simp_all add: tool_turns_def tool_turn_def)

lemma execute_calls_shape:
  "execute_calls lib sv tcs self = (r, self') \<Longrightarrow>
   \<exists>texts. length texts \<le> length tcs \<and>
     (r = None \<longleftrightarrow> length texts = length tcs) \<and>
     self' = self\<lparr>conversation_history := conversation_history self @ tool_turns tcs texts\<rparr>"
proof (induction tcs arbitrary: self)
  case Nil
  then show ?case by (auto simp: tool_turns_def)
next
  case (Cons tc tcs)
  show ?case
  proof (cases "json_loads lib (function_arguments tc)")
    case (Inl e)
    with Cons.prems have "r = Some e" "self' = self" by auto
    then show ?thesis by (intro exI[of _ "[]"]) (simp add: tool_turns_def)
  next
    case loads: (Inr function_args)
    show ?thesis
    proof (cases "execute_tool sv (function_name tc) function_args")
      case (Inl e)
      with loads Cons.prems have "r = Some e" "self' = self" by auto
      then show ?thesis by (intro exI[of _ "[]"]) (simp add: tool_turns_def)
    next
      case exec: (Inr tool_result)
      show ?thesis
      proof (cases "json_dumps lib tool_result")
        case (Inl e)
        with loads exec Cons.prems have "r = Some e" "self' = self" by auto
        then show ?thesis by (intro exI[of _ "[]"]) (simp add: tool_turns_def)
      next
        case (Inr out)
        with loads exec Cons.prems
        have "execute_calls lib sv tcs (append_turn (tool_turn (call_id tc) out) self) = (r, self')"
          by simp
        from Cons.IH[OF this] obtain texts where
          t: "length texts \<le> length tcs" "r = None \<longleftrightarrow> length texts = length tcs"
            "self' = (append_turn (tool_turn (call_id tc) out) self)
               \<lparr>conversation_history :=
                  conversation_history (append_turn (tool_turn (call_id tc) out) self)
                    @ tool_turns tcs texts\<rparr>"
          by blast
        then show ?thesis
          by (intro exI[of _ "out # texts"]) (simp add: tool_turns_def append_turn_def)
      qed
    qed
  qed
qed


lemma execute_calls_append:
  "execute_calls lib sv (pre @ post) self =
     (case execute_calls lib sv pre self of
        (Some e, s) \<Rightarrow> (Some e, s)
      | (None, s) \<Rightarrow> execute_calls lib sv post s)"
  by (induction pre arbitrary: self) (auto split: sum.splits option.splits prod.splits)

lemma process_query_planning_failed:
  assumes "planning_answer lib q self = Inl e"
  shows "process_query lib sv q self =
    (Inl e, self\<lparr>conversation_history := conversation_history self @ [user_turn q],
                 requests := requests self @ [planning_request (append_turn (user_turn q) self)]\<rparr>)"
  using assms
  by (simp add: process_query_def planning_answer_def create_message_def Let_def append_turn_def
      split: sum.splits)

lemma process_query_direct:
  assumes "planning_answer lib q self = Inr m" "no_calls (resp_tool_calls m)"
  shows "process_query lib sv q self =
    (Inr (resp_content m),
     self\<lparr>conversation_history :=
            conversation_history self @ [user_turn q, assistant_turn (resp_content m)],
          requests := requests self @ [planning_request (append_turn (user_turn q) self)]\<rparr>)"
  using assms
  by (simp add: process_query_def planning_answer_def create_message_def Let_def append_turn_def
      split: sum.splits)

lemma process_query_calls:
  assumes "planning_answer lib q self = Inr m" "\<not> no_calls (resp_tool_calls m)"
  shows "process_query lib sv q self =
    (case execute_calls lib sv (calls_of (resp_tool_calls m)) (after_request q m self) of
       (Some e, self4) \<Rightarrow> (Inl e, self4)
     | (None, self4) \<Rightarrow> finalize lib self4)"
  using assms
  by (simp add: process_query_def planning_answer_def create_message_def Let_def append_turn_def
      after_request_def split: sum.splits)

lemma finalize_failed:
  "fst (create_message lib (final_request self) self) = Inl e \<Longrightarrow>
   finalize lib self = (Inl e, self\<lparr>requests := requests self @ [final_request self]\<rparr>)"
  by (auto simp: finalize_def create_message_def split: sum.splits)

lemma finalize_answered:
  "fst (create_message lib (final_request self) self) = Inr f \<Longrightarrow>
   finalize lib self =
     (Inr (resp_content f),
      self\<lparr>requests := requests self @ [final_request self],
           conversation_history := conversation_history self @ [assistant_turn (resp_content f)]\<rparr>)"
  by (auto simp: finalize_def create_message_def append_turn_def split: sum.splits)

section \<open>Turns answered without tools\<close>

text \<open>
  C2. When the planning call requests no tool calls, \<^verbatim>\<open>process_query\<close> appends exactly
  two turns, the user turn and one assistant turn, and returns the content of that
  assistant turn.
\<close>

theorem direct_answer_history:
  assumes "planning_answer lib q self = Inr m"
    and "no_calls (resp_tool_calls m)"
  shows "conversation_history (snd (process_query lib sv q self)) =
           conversation_history self @ [user_turn q, assistant_turn (resp_content m)] \<and>
         length (conversation_history (snd (process_query lib sv q self))) =
           length (conversation_history self) + 2 \<and>
         fst (process_query lib sv q self) =
           Inr (content (last (conversation_history (snd (process_query lib sv q self)))))"
  by (simp add: process_query_direct[OF assms] assistant_turn_def)

theorem direct_answer_history_witness:
  "planning_answer (demo_library (says (Some ''Hello!'') None) (says None None)) ''Hello'' init =
     Inr \<lparr>resp_content = Some ''Hello!'', resp_tool_calls = None\<rparr> \<and>
   no_calls None \<and>
   conversation_history
     (snd (process_query (demo_library (says (Some ''Hello!'') None) (says None None))
             demo_servers ''Hello'' init)) =
     [user_turn ''Hello'', assistant_turn (Some ''Hello!'')] \<and>
   fst (process_query (demo_library (says (Some ''Hello!'') None) (says None None))
          demo_servers ''Hello'' init) = Inr (Some ''Hello!'')"
proof -
  let ?lib = "demo_library (says (Some ''Hello!'') None) (says None None)"
  have p: "planning_answer ?lib ''Hello'' init =
      Inr \<lparr>resp_content = Some ''Hello!'', resp_tool_calls = None\<rparr>"
    by (simp add: planning_answer_def create_message_def demo_library_def says_def
        planning_request_def first_choice_def)
  have n: "no_calls (resp_tool_calls \<lparr>resp_content = Some ''Hello!'', resp_tool_calls = None\<rparr>)"
    by (simp add: no_calls_def)
  from direct_answer_history[OF p n, of demo_servers] p n show ?thesis
    by (simp add: init_def assistant_turn_def no_calls_def)
qed

section \<open>Turns that request tools\<close>

text \<open>
  C1, as amended. When the planning call requests \<open>n \<ge> 1\<close> tool calls and
  \<^verbatim>\<open>process_query\<close> returns, the history has grown by exactly \<open>3 + n\<close> turns: the user
  turn, one assistant turn carrying the \<open>n\<close> requested calls, \<open>n\<close> tool turns carrying the
  identifiers of the calls in the order of the requests, and the final assistant turn
  with the returned text.
\<close>

theorem tool_round_history:
  assumes "planning_answer lib q self = Inr m"
    and "\<not> no_calls (resp_tool_calls m)"
    and "fst (process_query lib sv q self) = Inr answer"
  shows "\<exists>texts. length texts = length (calls_of (resp_tool_calls m)) \<and>
     conversation_history (snd (process_query lib sv q self)) =
       conversation_history self @
         [user_turn q, assistant_call_turn (resp_content m) (calls_of (resp_tool_calls m))] @
         tool_turns (calls_of (resp_tool_calls m)) texts @ [assistant_turn answer] \<and>
     length (conversation_history (snd (process_query lib sv q self))) =
       length (conversation_history self) + 3 + length (calls_of (resp_tool_calls m)) \<and>
     tool_calls (assistant_call_turn (resp_content m) (calls_of (resp_tool_calls m))) =
       Some (map entry_of (calls_of (resp_tool_calls m))) \<and>
     map entry_id (map entry_of (calls_of (resp_tool_calls m))) =
       map call_id (calls_of (resp_tool_calls m)) \<and>
     map tool_call_id (tool_turns (calls_of (resp_tool_calls m)) texts) =
       map (\<lambda>tc. Some (call_id tc)) (calls_of (resp_tool_calls m))"
proof -
  let ?tcs = "calls_of (resp_tool_calls m)"
  let ?s3 = "after_request q m self"
  obtain r self4 where ex: "execute_calls lib sv ?tcs ?s3 = (r, self4)"
    by (cases "execute_calls lib sv ?tcs ?s3")
  from assms(3) ex have r: "r = None"
    and fin: "fst (finalize lib self4) = Inr answer"
    and pq: "process_query lib sv q self = finalize lib self4"
    by (auto simp: process_query_calls[OF assms(1,2)] split: option.splits)
  from execute_calls_shape[OF ex] r obtain texts where
    len: "length texts = length ?tcs" and
    s4: "self4 = ?s3\<lparr>conversation_history := conversation_history ?s3 @ tool_turns ?tcs texts\<rparr>"
    by auto
  from fin have "conversation_history (snd (finalize lib self4)) =
      conversation_history self4 @ [assistant_turn answer]"
    by (auto simp: finalize_def create_message_def append_turn_def split: sum.splits)
  with s4 pq have h: "conversation_history (snd (process_query lib sv q self)) =
       conversation_history self @ [user_turn q, assistant_call_turn (resp_content m) ?tcs] @
         tool_turns ?tcs texts @ [assistant_turn answer]"
    by (simp add: after_request_def)
  have ids: "map tool_call_id (tool_turns ?tcs texts) = map (\<lambda>tc. Some (call_id tc)) ?tcs"
    using len by (simp add: tool_turns_ids)
  have n: "length (tool_turns ?tcs texts) = length ?tcs"
    using len by (simp add: tool_turns_length)
  have e: "map entry_id (map entry_of ?tcs) = map call_id ?tcs"
    by (simp add: entry_of_def)
  have c: "tool_calls (assistant_call_turn (resp_content m) ?tcs) = Some (map entry_of ?tcs)"
    by (simp add: assistant_call_turn_def)
  from h len ids n e c show ?thesis by (intro exI[of _ texts]) simp
qed

theorem tool_round_history_witness:
  "planning_answer
     (demo_library (says None (Some [dept_call, ghost_call])) (says (Some ''Ada.'') None))
     ''Who works in Engineering?'' init =
     Inr \<lparr>resp_content = None, resp_tool_calls = Some [dept_call, ghost_call]\<rparr> \<and>
   \<not> no_calls (Some [dept_call, ghost_call]) \<and>
   fst (process_query
     (demo_library (says None (Some [dept_call, ghost_call])) (says (Some ''Ada.'') None))
     demo_servers ''Who works in Engineering?'' init) = Inr (Some ''Ada.'') \<and>
   (\<exists>texts. length texts = 2 \<and>
      conversation_history (snd (process_query
        (demo_library (says None (Some [dept_call, ghost_call])) (says (Some ''Ada.'') None))
        demo_servers ''Who works in Engineering?'' init)) =
      [user_turn ''Who works in Engineering?'',
       assistant_call_turn None [dept_call, ghost_call]] @
      tool_turns [dept_call, ghost_call] texts @ [assistant_turn (Some ''Ada.'')]) \<and>
   length (conversation_history (snd (process_query
        (demo_library (says None (Some [dept_call, ghost_call])) (says (Some ''Ada.'') None))
        demo_servers ''Who works in Engineering?'' init))) = 5"
proof -
  let ?lib = "demo_library (says None (Some [dept_call, ghost_call])) (says (Some ''Ada.'') None)"
  let ?m = "\<lparr>resp_content = None, resp_tool_calls = Some [dept_call, ghost_call]\<rparr>"
  have p: "planning_answer ?lib ''Who works in Engineering?'' init = Inr ?m"
    by code_simp
  have n: "\<not> no_calls (resp_tool_calls ?m)"
    by (simp add: no_calls_def)
  have f: "fst (process_query ?lib demo_servers ''Who works in Engineering?'' init) =
      Inr (Some ''Ada.'')"
    by code_simp
  have i: "conversation_history init = []"
    by (simp add: init_def)
  have c: "calls_of (Some [dept_call, ghost_call]) = [dept_call, ghost_call]"
    by (simp add: calls_of_def)
  from tool_round_history[OF p n f] obtain texts where
    t: "length texts = length (calls_of (resp_tool_calls ?m))"
      "conversation_history (snd (process_query ?lib demo_servers ''Who works in Engineering?'' init)) =
         conversation_history init @
           [user_turn ''Who works in Engineering?'',
            assistant_call_turn (resp_content ?m) (calls_of (resp_tool_calls ?m))] @
           tool_turns (calls_of (resp_tool_calls ?m)) texts @ [assistant_turn (Some ''Ada.'')]"
      "length (conversation_history
         (snd (process_query ?lib demo_servers ''Who works in Engineering?'' init))) =
         length (conversation_history init) + 3 + length (calls_of (resp_tool_calls ?m))"
    by blast
  have "\<exists>texts. length texts = 2 \<and>
      conversation_history (snd (process_query ?lib demo_servers ''Who works in Engineering?'' init)) =
      [user_turn ''Who works in Engineering?'',
       assistant_call_turn None [dept_call, ghost_call]] @
      tool_turns [dept_call, ghost_call] texts @ [assistant_turn (Some ''Ada.'')]"
    using t(1,2) by (intro exI[of _ texts]) (simp add: c i)
  moreover have "length (conversation_history
      (snd (process_query ?lib demo_servers ''Who works in Engineering?'' init))) = 5"
    using t(3) by (simp add: c i)
  moreover have "\<not> no_calls (Some [dept_call, ghost_call])"
    by (simp add: no_calls_def)
  ultimately show ?thesis using p f by blast
qed

text \<open>
  The count \<open>2 + n\<close> of C1 fails on a turn with one requested call that runs to its end:
  four turns are appended.
\<close>

theorem two_plus_n_refuted:
  "planning_answer
     (demo_library (says None (Some [dept_call])) (says (Some ''Ada.'') None))
     ''Who works in Engineering?'' init =
     Inr \<lparr>resp_content = None, resp_tool_calls = Some [dept_call]\<rparr> \<and>
   length (calls_of (Some [dept_call])) = 1 \<and>
   fst (process_query
     (demo_library (says None (Some [dept_call])) (says (Some ''Ada.'') None))
     demo_servers ''Who works in Engineering?'' init) = Inr (Some ''Ada.'') \<and>
   length (conversation_history (snd (process_query
     (demo_library (says None (Some [dept_call])) (says (Some ''Ada.'') None))
     demo_servers ''Who works in Engineering?'' init))) = 4 \<and>
   length (conversation_history (snd (process_query
     (demo_library (says None (Some [dept_call])) (says (Some ''Ada.'') None))
     demo_servers ''Who works in Engineering?'' init))) \<noteq>
     length (conversation_history init) + 2 + length (calls_of (Some [dept_call]))"
  by code_simp

section \<open>Arguments that do not parse\<close>

text \<open>
  What the code does with arguments that do not parse: \<^verbatim>\<open>json.loads\<close> is called in the
  loop of \<^verbatim>\<open>process_query\<close>, outside the handler of \<^verbatim>\<open>_execute_tool\<close>. Once the calls
  before such a call have run, its exception is what \<^verbatim>\<open>process_query\<close> raises; only the
  planning request was sent, and the history ends with the tool turns of the earlier
  calls.
\<close>

lemma parse_failure_propagates:
  assumes "planning_answer lib q self = Inr m"
    and "calls_of (resp_tool_calls m) = pre @ tc # post"
    and "fst (execute_calls lib sv pre (after_request q m self)) = None"
    and "json_loads lib (function_arguments tc) = Inl e"
  shows "fst (process_query lib sv q self) = Inl e \<and>
     requests (snd (process_query lib sv q self)) =
       requests self @ [planning_request (append_turn (user_turn q) self)] \<and>
     (\<exists>texts. length texts = length pre \<and>
        conversation_history (snd (process_query lib sv q self)) =
          conversation_history self @
            [user_turn q, assistant_call_turn (resp_content m) (pre @ tc # post)] @
            tool_turns pre texts)"
proof -
  let ?s3 = "after_request q m self"
  obtain self4 where pre: "execute_calls lib sv pre ?s3 = (None, self4)"
    using assms(3) by (cases "execute_calls lib sv pre ?s3") simp
  from execute_calls_shape[OF pre] obtain texts where
    len: "length texts = length pre" and
    s4: "self4 = ?s3\<lparr>conversation_history := conversation_history ?s3 @ tool_turns pre texts\<rparr>"
    by auto
  have stop: "execute_calls lib sv (tc # post) self4 = (Some e, self4)"
    using assms(4) by simp
  have n: "\<not> no_calls (resp_tool_calls m)"
    using assms(2) by (simp add: no_calls_iff)
  have pq: "process_query lib sv q self = (Inl e, self4)"
    by (simp add: process_query_calls[OF assms(1) n] assms(2) assms(4) execute_calls_append pre)
  have h: "conversation_history self4 =
      conversation_history self @
        [user_turn q, assistant_call_turn (resp_content m) (pre @ tc # post)] @ tool_turns pre texts"
    by (simp add: s4 after_request_def assms(2))
  have r: "requests self4 = requests self @ [planning_request (append_turn (user_turn q) self)]"
    by (simp add: s4 after_request_def)
  from pq h r len show ?thesis by auto
qed

text \<open>
  C4 says that arguments which fail to parse become an error payload in the tool turn of
  their call, and that the turn goes on. The code evaluated where the second of three
  requested calls has such arguments: the exception of \<^verbatim>\<open>json.loads\<close> is what
  \<^verbatim>\<open>process_query\<close> raises, no tool turn answers that call or the call after it, and
  only the planning request was sent.
\<close>

theorem parse_failure_not_caught:
  "json_loads
     (demo_library (says None (Some [dept_call, bad_call, ghost_call])) (says (Some ''Ada.'') None))
     (function_arguments bad_call) =
     Inl (Raised ''Expecting property name enclosed in double quotes: line 1 column 2 (char 1)'') \<and>
   fst (process_query
     (demo_library (says None (Some [dept_call, bad_call, ghost_call])) (says (Some ''Ada.'') None))
     demo_servers ''Who?'' init) =
     Inl (Raised ''Expecting property name enclosed in double quotes: line 1 column 2 (char 1)'') \<and>
   map tool_call_id (conversation_history (snd (process_query
     (demo_library (says None (Some [dept_call, bad_call, ghost_call])) (says (Some ''Ada.'') None))
     demo_servers ''Who?'' init))) = [None, None, Some ''call_1''] \<and>
   Some (call_id bad_call) \<notin> set (map tool_call_id (conversation_history (snd (process_query
     (demo_library (says None (Some [dept_call, bad_call, ghost_call])) (says (Some ''Ada.'') None))
     demo_servers ''Who?'' init)))) \<and>
   Some (call_id ghost_call) \<notin> set (map tool_call_id (conversation_history (snd (process_query
     (demo_library (says None (Some [dept_call, bad_call, ghost_call])) (says (Some ''Ada.'') None))
     demo_servers ''Who?'' init)))) \<and>
   length (requests (snd (process_query
     (demo_library (says None (Some [dept_call, bad_call, ghost_call])) (says (Some ''Ada.'') None))
     demo_servers ''Who?'' init))) = 1"
  by code_simp

section \<open>Aborted turns\<close>

lemma before_final_shape:
  "\<exists>texts. length texts \<le> length (calls_of (resp_tool_calls m)) \<and>
     (calls_outcome lib sv q m self = None \<longleftrightarrow>
        length texts = length (calls_of (resp_tool_calls m))) \<and>
     requests (before_final lib sv q m self) =
       requests self @ [planning_request (append_turn (user_turn q) self)] \<and>
     conversation_history (before_final lib sv q m self) =
       conversation_history self @
         [user_turn q, assistant_call_turn (resp_content m) (calls_of (resp_tool_calls m))] @
         tool_turns (calls_of (resp_tool_calls m)) texts"
proof -
  let ?tcs = "calls_of (resp_tool_calls m)"
  let ?s3 = "after_request q m self"
  have "execute_calls lib sv ?tcs ?s3 = (calls_outcome lib sv q m self, before_final lib sv q m self)"
    by (simp add: calls_outcome_def before_final_def)
  from execute_calls_shape[OF this] obtain texts where
    le: "length texts \<le> length ?tcs" and
    all: "calls_outcome lib sv q m self = None \<longleftrightarrow> length texts = length ?tcs" and
    s4: "before_final lib sv q m self =
          ?s3\<lparr>conversation_history := conversation_history ?s3 @ tool_turns ?tcs texts\<rparr>"
    by (elim exE conjE) (rule that)
  have "requests (before_final lib sv q m self) =
       requests self @ [planning_request (append_turn (user_turn q) self)]"
    by (simp add: s4 after_request_def)
  moreover have "conversation_history (before_final lib sv q m self) =
       conversation_history self @ [user_turn q, assistant_call_turn (resp_content m) ?tcs] @
         tool_turns ?tcs texts"
    by (simp add: s4 after_request_def)
  ultimately show ?thesis using le all by (intro exI[of _ texts]) simp
qed

lemma process_query_calls_raised:
  assumes "planning_answer lib q self = Inr m" "\<not> no_calls (resp_tool_calls m)"
    and "calls_outcome lib sv q m self = Some e"
  shows "process_query lib sv q self = (Inl e, before_final lib sv q m self)"
proof -
  have "execute_calls lib sv (calls_of (resp_tool_calls m)) (after_request q m self) =
      (Some e, before_final lib sv q m self)"
    using assms(3) by (simp add: calls_outcome_def before_final_def prod_eq_iff)
  then show ?thesis by (simp add: process_query_calls[OF assms(1,2)])
qed

lemma process_query_calls_done:
  assumes "planning_answer lib q self = Inr m" "\<not> no_calls (resp_tool_calls m)"
    and "calls_outcome lib sv q m self = None"
  shows "process_query lib sv q self = finalize lib (before_final lib sv q m self)"
proof -
  have "execute_calls lib sv (calls_of (resp_tool_calls m)) (after_request q m self) =
      (None, before_final lib sv q m self)"
    using assms(3) by (simp add: calls_outcome_def before_final_def prod_eq_iff)
  then show ?thesis by (simp add: process_query_calls[OF assms(1,2)])
qed

lemma process_query_final_failed:
  assumes "planning_answer lib q self = Inr m" "\<not> no_calls (resp_tool_calls m)"
    and "calls_outcome lib sv q m self = None"
    and "final_answer lib sv q m self = Inl e"
  shows "process_query lib sv q self =
    (Inl e, (before_final lib sv q m self)
       \<lparr>requests := requests (before_final lib sv q m self) @
          [final_request (before_final lib sv q m self)]\<rparr>)"
  using assms(4) finalize_failed[of lib "before_final lib sv q m self" e]
  by (simp add: process_query_calls_done[OF assms(1,2,3)] final_answer_def)

lemma process_query_final_answered:
  assumes "planning_answer lib q self = Inr m" "\<not> no_calls (resp_tool_calls m)"
    and "calls_outcome lib sv q m self = None"
    and "final_answer lib sv q m self = Inr f"
  shows "process_query lib sv q self =
    (Inr (resp_content f), (before_final lib sv q m self)
       \<lparr>requests := requests (before_final lib sv q m self) @
          [final_request (before_final lib sv q m self)],
        conversation_history := conversation_history (before_final lib sv q m self) @
          [assistant_turn (resp_content f)]\<rparr>)"
  using assms(4) finalize_answered[of lib "before_final lib sv q m self" f]
  by (simp add: process_query_calls_done[OF assms(1,2,3)] final_answer_def)




text \<open>The five ways a call of \<^verbatim>\<open>process_query\<close> can end.\<close>

lemma process_query_outcomes:
  obtains
    (plan_failed) e where
      "planning_answer lib q self = Inl e"
  | (direct) m where
      "planning_answer lib q self = Inr m" "no_calls (resp_tool_calls m)"
  | (calls_raised) m e where
      "planning_answer lib q self = Inr m" "\<not> no_calls (resp_tool_calls m)"
      "calls_outcome lib sv q m self = Some e"
  | (final_failed) m e where
      "planning_answer lib q self = Inr m" "\<not> no_calls (resp_tool_calls m)"
      "calls_outcome lib sv q m self = None" "final_answer lib sv q m self = Inl e"
  | (answered) m f where
      "planning_answer lib q self = Inr m" "\<not> no_calls (resp_tool_calls m)"
      "calls_outcome lib sv q m self = None" "final_answer lib sv q m self = Inr f"
proof (cases "planning_answer lib q self")
  case (Inl e)
  then show ?thesis by (rule plan_failed)
next
  case (Inr m)
  show ?thesis
  proof (cases "no_calls (resp_tool_calls m)")
    case True
    with Inr show ?thesis by (rule direct)
  next
    case False
    show ?thesis
    proof (cases "calls_outcome lib sv q m self")
      case (Some e)
      with Inr False show ?thesis by (rule calls_raised)
    next
      case None
      show ?thesis
      proof (cases "final_answer lib sv q m self")
        case (Inl e)
        with Inr False None show ?thesis by (rule final_failed)
      next
        case f: (Inr f)
        with Inr False None show ?thesis by (rule answered)
      qed
    qed
  qed
qed

lemma tool_turns_no_calls:
  "filter (\<lambda>t. tool_calls t \<noteq> None) (tool_turns tcs texts) = []"
  by (auto simp: tool_turns_def tool_turn_def filter_empty_conv)


text \<open>The history when the loop over the requested calls is left.\<close>

lemma before_final_history:
  obtains texts where
    "length texts \<le> length (calls_of (resp_tool_calls m))"
    "calls_outcome lib sv q m self = None \<longleftrightarrow>
       length texts = length (calls_of (resp_tool_calls m))"
    "conversation_history (before_final lib sv q m self) =
       conversation_history self @
         [user_turn q, assistant_call_turn (resp_content m) (calls_of (resp_tool_calls m))] @
         tool_turns (calls_of (resp_tool_calls m)) texts"
  using before_final_shape[of m lib sv q self] by (elim exE conjE) (rule that)






section \<open>One tool round per turn\<close>

lemma before_final_requests:
  "requests (before_final lib sv q m self) =
     requests self @ [planning_request (append_turn (user_turn q) self)]"
  using before_final_shape[of m lib sv q self] by (elim exE conjE)

lemma appended_calls_direct:
  "filter (\<lambda>t. tool_calls t \<noteq> None) [user_turn q, assistant_turn c] = []"
  by (simp add: user_turn_def assistant_turn_def)

lemma appended_calls_round:
  "length (filter (\<lambda>t. tool_calls t \<noteq> None)
     ([user_turn q, assistant_call_turn c tcs] @ tool_turns tcs texts)) = 1"
  by (simp add: user_turn_def assistant_call_turn_def tool_turns_no_calls del: not_None_eq)

lemma appended_calls_answered:
  "length (filter (\<lambda>t. tool_calls t \<noteq> None)
     (([user_turn q, assistant_call_turn c tcs] @ tool_turns tcs texts) @ [assistant_turn c'])) = 1"
  by (simp add: user_turn_def assistant_call_turn_def assistant_turn_def tool_turns_no_calls
      del: not_None_eq)

text \<open>
  C6. The finalization request carries the same system message as the planning request
  in front of the history, and neither a tool registry nor a tool choice. A turn sends
  the planning request alone, or the planning request and then one finalization request
  over the history extended by the user turn, the assistant turn with the requested
  calls and one tool turn per call; after the finalization request nothing is appended
  but one assistant turn without requested calls. So at most one of the turns a call of
  \<^verbatim>\<open>process_query\<close> appends carries requested calls.
\<close>

theorem single_tool_round:
  "req_tools (final_request s) = None \<and> tool_choice (final_request s) = None \<and>
   messages (final_request s) = system_message # conversation_history s \<and>
   messages (planning_request s) = system_message # conversation_history s \<and>
   req_tools (planning_request s) = Some (tools s) \<and>
   tool_calls (assistant_turn c) = None \<and>
   (requests (snd (process_query lib sv q self)) =
      requests self @ [planning_request (append_turn (user_turn q) self)] \<or>
    (\<exists>m texts. planning_answer lib q self = Inr m \<and>
       length texts = length (calls_of (resp_tool_calls m)) \<and>
       conversation_history (before_final lib sv q m self) =
         conversation_history self @
           [user_turn q, assistant_call_turn (resp_content m) (calls_of (resp_tool_calls m))] @
           tool_turns (calls_of (resp_tool_calls m)) texts \<and>
       requests (snd (process_query lib sv q self)) =
         requests self @ [planning_request (append_turn (user_turn q) self),
                          final_request (before_final lib sv q m self)] \<and>
       (conversation_history (snd (process_query lib sv q self)) =
          conversation_history (before_final lib sv q m self) \<or>
        (\<exists>f. final_answer lib sv q m self = Inr f \<and>
           fst (process_query lib sv q self) = Inr (resp_content f) \<and>
           conversation_history (snd (process_query lib sv q self)) =
             conversation_history (before_final lib sv q m self) @
               [assistant_turn (resp_content f)])))) \<and>
   length (filter (\<lambda>t. tool_calls t \<noteq> None)
     (drop (length (conversation_history self))
        (conversation_history (snd (process_query lib sv q self))))) \<le> 1"
proof -
  have rq: "req_tools (final_request s) = None \<and> tool_choice (final_request s) = None \<and>
      messages (final_request s) = system_message # conversation_history s \<and>
      messages (planning_request s) = system_message # conversation_history s \<and>
      req_tools (planning_request s) = Some (tools s) \<and>
      tool_calls (assistant_turn c) = None"
    by (simp add: final_request_def planning_request_def assistant_turn_def)
  let ?P = "\<lambda>t. tool_calls t \<noteq> None"
  let ?new = "drop (length (conversation_history self))
        (conversation_history (snd (process_query lib sv q self)))"
  let ?plan = "planning_request (append_turn (user_turn q) self)"
  have body: "(requests (snd (process_query lib sv q self)) = requests self @ [?plan] \<or>
    (\<exists>m texts. planning_answer lib q self = Inr m \<and>
       length texts = length (calls_of (resp_tool_calls m)) \<and>
       conversation_history (before_final lib sv q m self) =
         conversation_history self @
           [user_turn q, assistant_call_turn (resp_content m) (calls_of (resp_tool_calls m))] @
           tool_turns (calls_of (resp_tool_calls m)) texts \<and>
       requests (snd (process_query lib sv q self)) =
         requests self @ [?plan, final_request (before_final lib sv q m self)] \<and>
       (conversation_history (snd (process_query lib sv q self)) =
          conversation_history (before_final lib sv q m self) \<or>
        (\<exists>f. final_answer lib sv q m self = Inr f \<and>
           fst (process_query lib sv q self) = Inr (resp_content f) \<and>
           conversation_history (snd (process_query lib sv q self)) =
             conversation_history (before_final lib sv q m self) @
               [assistant_turn (resp_content f)])))) \<and>
    length (filter ?P ?new) \<le> 1"
  proof (cases rule: process_query_outcomes[where lib=lib and q=q and self=self and sv=sv])
    case (plan_failed e)
    from process_query_planning_failed[OF this, of sv] show ?thesis
      by (simp add: user_turn_def)
  next
    case (direct m)
    from process_query_direct[OF this, of sv] show ?thesis
      by (simp add: user_turn_def assistant_turn_def)
  next
    case (calls_raised m e)
    obtain texts where
      h: "conversation_history (before_final lib sv q m self) =
         conversation_history self @
           [user_turn q, assistant_call_turn (resp_content m) (calls_of (resp_tool_calls m))] @
           tool_turns (calls_of (resp_tool_calls m)) texts"
      by (rule before_final_history[where m=m and lib=lib and sv=sv and q=q and self=self])
    have pq: "process_query lib sv q self = (Inl e, before_final lib sv q m self)"
      by (rule process_query_calls_raised[OF calls_raised])
    have "requests (snd (process_query lib sv q self)) = requests self @ [?plan]"
      by (simp add: pq before_final_requests)
    moreover have "length (filter ?P ?new) \<le> 1"
      using appended_calls_round[of q "resp_content m" "calls_of (resp_tool_calls m)" texts]
      by (simp add: pq h del: not_None_eq)
    ultimately show ?thesis by simp
  next
    case (final_failed m e)
    obtain texts where
      t: "calls_outcome lib sv q m self = None \<longleftrightarrow>
            length texts = length (calls_of (resp_tool_calls m))" and
      h: "conversation_history (before_final lib sv q m self) =
         conversation_history self @
           [user_turn q, assistant_call_turn (resp_content m) (calls_of (resp_tool_calls m))] @
           tool_turns (calls_of (resp_tool_calls m)) texts"
      by (rule before_final_history[where m=m and lib=lib and sv=sv and q=q and self=self])
    from t final_failed(3) have len: "length texts = length (calls_of (resp_tool_calls m))"
      by simp
    note pq = process_query_final_failed[OF final_failed]
    have r: "requests (snd (process_query lib sv q self)) =
        requests self @ [?plan, final_request (before_final lib sv q m self)]"
      by (simp add: pq before_final_requests)
    have c: "conversation_history (snd (process_query lib sv q self)) =
        conversation_history (before_final lib sv q m self)"
      by (simp add: pq)
    have n: "length (filter ?P ?new) \<le> 1"
      using appended_calls_round[of q "resp_content m" "calls_of (resp_tool_calls m)" texts]
      by (simp add: c h del: not_None_eq)
    from final_failed(1) len h r c have "\<exists>m texts. planning_answer lib q self = Inr m \<and>
       length texts = length (calls_of (resp_tool_calls m)) \<and>
       conversation_history (before_final lib sv q m self) =
         conversation_history self @
           [user_turn q, assistant_call_turn (resp_content m) (calls_of (resp_tool_calls m))] @
           tool_turns (calls_of (resp_tool_calls m)) texts \<and>
       requests (snd (process_query lib sv q self)) =
         requests self @ [?plan, final_request (before_final lib sv q m self)] \<and>
       (conversation_history (snd (process_query lib sv q self)) =
          conversation_history (before_final lib sv q m self) \<or>
        (\<exists>f. final_answer lib sv q m self = Inr f \<and>
           fst (process_query lib sv q self) = Inr (resp_content f) \<and>
           conversation_history (snd (process_query lib sv q self)) =
             conversation_history (before_final lib sv q m self) @
               [assistant_turn (resp_content f)]))"
      by (intro exI[of _ m] exI[of _ texts] conjI disjI1)
    with n show ?thesis by (intro conjI disjI2)
  next
    case (answered m f)
    obtain texts where
      t: "calls_outcome lib sv q m self = None \<longleftrightarrow>
            length texts = length (calls_of (resp_tool_calls m))" and
      h: "conversation_history (before_final lib sv q m self) =
         conversation_history self @
           [user_turn q, assistant_call_turn (resp_content m) (calls_of (resp_tool_calls m))] @
           tool_turns (calls_of (resp_tool_calls m)) texts"
      by (rule before_final_history[where m=m and lib=lib and sv=sv and q=q and self=self])
    from t answered(3) have len: "length texts = length (calls_of (resp_tool_calls m))"
      by simp
    note pq = process_query_final_answered[OF answered]
    have r: "requests (snd (process_query lib sv q self)) =
        requests self @ [?plan, final_request (before_final lib sv q m self)]"
      by (simp add: pq before_final_requests)
    have v: "fst (process_query lib sv q self) = Inr (resp_content f)"
      by (simp add: pq)
    have c: "conversation_history (snd (process_query lib sv q self)) =
        conversation_history (before_final lib sv q m self) @ [assistant_turn (resp_content f)]"
      by (simp add: pq)
    have n: "length (filter ?P ?new) \<le> 1"
      using appended_calls_answered[of q "resp_content m" "calls_of (resp_tool_calls m)" texts
          "resp_content f"]
      by (simp add: c h del: not_None_eq)
    from answered(4) v c have "\<exists>f. final_answer lib sv q m self = Inr f \<and>
           fst (process_query lib sv q self) = Inr (resp_content f) \<and>
           conversation_history (snd (process_query lib sv q self)) =
             conversation_history (before_final lib sv q m self) @
               [assistant_turn (resp_content f)]"
      by (intro exI[of _ f] conjI)
    then have "conversation_history (snd (process_query lib sv q self)) =
          conversation_history (before_final lib sv q m self) \<or>
        (\<exists>f. final_answer lib sv q m self = Inr f \<and>
           fst (process_query lib sv q self) = Inr (resp_content f) \<and>
           conversation_history (snd (process_query lib sv q self)) =
             conversation_history (before_final lib sv q m self) @
               [assistant_turn (resp_content f)])"
      by (rule disjI2)
    with answered(1) len h r have "\<exists>m texts. planning_answer lib q self = Inr m \<and>
       length texts = length (calls_of (resp_tool_calls m)) \<and>
       conversation_history (before_final lib sv q m self) =
         conversation_history self @
           [user_turn q, assistant_call_turn (resp_content m) (calls_of (resp_tool_calls m))] @
           tool_turns (calls_of (resp_tool_calls m)) texts \<and>
       requests (snd (process_query lib sv q self)) =
         requests self @ [?plan, final_request (before_final lib sv q m self)] \<and>
       (conversation_history (snd (process_query lib sv q self)) =
          conversation_history (before_final lib sv q m self) \<or>
        (\<exists>f. final_answer lib sv q m self = Inr f \<and>
           fst (process_query lib sv q self) = Inr (resp_content f) \<and>
           conversation_history (snd (process_query lib sv q self)) =
             conversation_history (before_final lib sv q m self) @
               [assistant_turn (resp_content f)]))"
      by (intro exI[of _ m] exI[of _ texts] conjI)
    with n show ?thesis by (intro conjI disjI2)
  qed
  from rq body show ?thesis by (elim conjE) (intro conjI)
qed

section \<open>Absent content\<close>

text \<open>
  C10. When the planning message requests no calls and its content is \<^verbatim>\<open>None\<close>, the
  assistant turn is appended with the content \<^verbatim>\<open>None\<close> and \<^verbatim>\<open>None\<close> is returned. When
  it requests calls, the assistant turn appended after the user turn carries the
  content itself, or the empty string when the content is \<^verbatim>\<open>None\<close>. The final assistant
  turn of a tool round carries the content of the finalization message as it is, which
  is also the value returned.
\<close>

theorem absent_content:
  "(planning_answer lib q self = Inr m \<and> no_calls (resp_tool_calls m) \<and>
    resp_content m = None \<longrightarrow>
      fst (process_query lib sv q self) = Inr None \<and>
      conversation_history (snd (process_query lib sv q self)) =
        conversation_history self @ [user_turn q, assistant_turn None] \<and>
      content (last (conversation_history (snd (process_query lib sv q self)))) = None) \<and>
   (planning_answer lib q self = Inr m \<and> \<not> no_calls (resp_tool_calls m) \<longrightarrow>
      (\<exists>rest. conversation_history (snd (process_query lib sv q self)) =
         conversation_history self @
           [user_turn q, assistant_call_turn (resp_content m) (calls_of (resp_tool_calls m))] @
           rest) \<and>
      content (assistant_call_turn (resp_content m) (calls_of (resp_tool_calls m))) =
        Some (case resp_content m of None \<Rightarrow> [] | Some c \<Rightarrow> c)) \<and>
   (planning_answer lib q self = Inr m \<and> \<not> no_calls (resp_tool_calls m) \<and>
    calls_outcome lib sv q m self = None \<and> final_answer lib sv q m self = Inr f \<longrightarrow>
      fst (process_query lib sv q self) = Inr (resp_content f) \<and>
      last (conversation_history (snd (process_query lib sv q self))) =
        assistant_turn (resp_content f) \<and>
      content (last (conversation_history (snd (process_query lib sv q self)))) =
        resp_content f)"
proof -
  have c1: "fst (process_query lib sv q self) = Inr None \<and>
      conversation_history (snd (process_query lib sv q self)) =
        conversation_history self @ [user_turn q, assistant_turn None] \<and>
      content (last (conversation_history (snd (process_query lib sv q self)))) = None"
    if a: "planning_answer lib q self = Inr m \<and> no_calls (resp_tool_calls m) \<and>
      resp_content m = None"
  proof -
    from a have "planning_answer lib q self = Inr m" "no_calls (resp_tool_calls m)" by simp_all
    from process_query_direct[OF this, of sv] a show ?thesis
      by (simp add: assistant_turn_def)
  qed
  have c2: "(\<exists>rest. conversation_history (snd (process_query lib sv q self)) =
         conversation_history self @
           [user_turn q, assistant_call_turn (resp_content m) (calls_of (resp_tool_calls m))] @
           rest) \<and>
      content (assistant_call_turn (resp_content m) (calls_of (resp_tool_calls m))) =
        Some (case resp_content m of None \<Rightarrow> [] | Some c \<Rightarrow> c)"
    if a: "planning_answer lib q self = Inr m \<and> \<not> no_calls (resp_tool_calls m)"
  proof -
    from a have p: "planning_answer lib q self = Inr m" and n: "\<not> no_calls (resp_tool_calls m)"
      by simp_all
    let ?tcs = "calls_of (resp_tool_calls m)"
    obtain texts where
      h: "conversation_history (before_final lib sv q m self) =
         conversation_history self @ [user_turn q, assistant_call_turn (resp_content m) ?tcs] @
           tool_turns ?tcs texts"
      by (rule before_final_history[where m=m and lib=lib and sv=sv and q=q and self=self])
    have "\<exists>rest. conversation_history (snd (process_query lib sv q self)) =
         conversation_history self @ [user_turn q, assistant_call_turn (resp_content m) ?tcs] @ rest"
    proof (cases "calls_outcome lib sv q m self")
      case (Some e)
      from process_query_calls_raised[OF p n Some] h show ?thesis
        by (intro exI[of _ "tool_turns ?tcs texts"]) simp
    next
      case None
      show ?thesis
      proof (cases "final_answer lib sv q m self")
        case (Inl e)
        from process_query_final_failed[OF p n None Inl] h show ?thesis
          by (intro exI[of _ "tool_turns ?tcs texts"]) simp
      next
        case (Inr f')
        from process_query_final_answered[OF p n None Inr] h show ?thesis
          by (intro exI[of _ "tool_turns ?tcs texts @ [assistant_turn (resp_content f')]"]) simp
      qed
    qed
    moreover have "content (assistant_call_turn (resp_content m) ?tcs) =
        Some (case resp_content m of None \<Rightarrow> [] | Some c \<Rightarrow> c)"
      by (simp add: assistant_call_turn_def content_or_empty_def split: option.split)
    ultimately show ?thesis by (rule conjI)
  qed
  have c3: "fst (process_query lib sv q self) = Inr (resp_content f) \<and>
      last (conversation_history (snd (process_query lib sv q self))) =
        assistant_turn (resp_content f) \<and>
      content (last (conversation_history (snd (process_query lib sv q self)))) =
        resp_content f"
    if a: "planning_answer lib q self = Inr m \<and> \<not> no_calls (resp_tool_calls m) \<and>
      calls_outcome lib sv q m self = None \<and> final_answer lib sv q m self = Inr f"
  proof -
    from a have "process_query lib sv q self =
      (Inr (resp_content f), (before_final lib sv q m self)
         \<lparr>requests := requests (before_final lib sv q m self) @
            [final_request (before_final lib sv q m self)],
          conversation_history := conversation_history (before_final lib sv q m self) @
            [assistant_turn (resp_content f)]\<rparr>)"
      by (intro process_query_final_answered) simp_all
    then show ?thesis by (simp add: assistant_turn_def)
  qed
  show ?thesis
    by (intro conjI; intro impI) (rule c1 c2 c3; assumption)+
qed

theorem absent_content_witness:
  "planning_answer (demo_library (says None None) (says None None)) ''Hello'' init =
     Inr \<lparr>resp_content = None, resp_tool_calls = None\<rparr> \<and>
   fst (process_query (demo_library (says None None) (says None None))
     demo_servers ''Hello'' init) = Inr None \<and>
   content (last (conversation_history (snd (process_query
     (demo_library (says None None) (says None None)) demo_servers ''Hello'' init)))) = None \<and>
   content (assistant_call_turn None [dept_call]) = Some [] \<and>
   final_answer (demo_library (says None (Some [dept_call])) (says None None))
     demo_servers ''Who?'' \<lparr>resp_content = None, resp_tool_calls = Some [dept_call]\<rparr> init =
     Inr \<lparr>resp_content = None, resp_tool_calls = None\<rparr> \<and>
   fst (process_query (demo_library (says None (Some [dept_call])) (says None None))
     demo_servers ''Who?'' init) = Inr None \<and>
   content (last (conversation_history (snd (process_query
     (demo_library (says None (Some [dept_call])) (says None None))
     demo_servers ''Who?'' init)))) = None"
proof -
  let ?lib1 = "demo_library (says None None) (says None None)"
  let ?lib2 = "demo_library (says None (Some [dept_call])) (says None None)"
  let ?m1 = "\<lparr>resp_content = None, resp_tool_calls = None\<rparr>"
  let ?m2 = "\<lparr>resp_content = None, resp_tool_calls = Some [dept_call]\<rparr>"
  have p1: "planning_answer ?lib1 ''Hello'' init = Inr ?m1 \<and> no_calls (resp_tool_calls ?m1) \<and>
      resp_content ?m1 = None"
    by code_simp
  note t1 = absent_content[of ?lib1 "''Hello''" init ?m1 demo_servers ?m1,
      THEN conjunct1, THEN mp, OF p1]
  have p2: "planning_answer ?lib2 ''Who?'' init = Inr ?m2 \<and> \<not> no_calls (resp_tool_calls ?m2)"
    by code_simp
  note t2 = absent_content[of ?lib2 "''Who?''" init ?m2 demo_servers ?m1,
      THEN conjunct2, THEN conjunct1, THEN mp, OF p2]
  have p3: "planning_answer ?lib2 ''Who?'' init = Inr ?m2 \<and> \<not> no_calls (resp_tool_calls ?m2) \<and>
      calls_outcome ?lib2 demo_servers ''Who?'' ?m2 init = None \<and>
      final_answer ?lib2 demo_servers ''Who?'' ?m2 init = Inr ?m1"
    by code_simp
  note t3 = absent_content[of ?lib2 "''Who?''" init ?m2 demo_servers ?m1,
      THEN conjunct2, THEN conjunct2, THEN mp, OF p3]
  have c: "content (assistant_call_turn None [dept_call]) = Some []"
    using t2 by (simp add: calls_of_def)
  have r: "fst (process_query ?lib2 demo_servers ''Who?'' init) = Inr None"
    "content (last (conversation_history (snd (process_query ?lib2 demo_servers ''Who?'' init)))) =
       None"
    using t3 by (simp_all add: assistant_turn_def)
  from p1 t1 c p3 r show ?thesis
    by (intro conjI) (elim conjE, assumption)+
qed

end
